theory Spec2Isabelle
  imports Main "HOL-Library.Word"
begin

section \<open>Common conventions\<close>

text \<open>
  The two servers (\<^verbatim>\<open>office-server/server.py\<close> and \<^verbatim>\<open>browser-server/server.py\<close>)
  are Python programs that drive external applications through COM, Selenium and the
  Win32 API.  A call into one of these libraries either returns a value or raises a Python
  exception; the embedding makes that outcome a value.  What the outside world answers is
  supplied by an environment record (one field per call site or per API call), and what the
  program asks of the outside world is recorded, in order, in a log of calls that is part
  of the state.  Python's module-level globals (\<^verbatim>\<open>office_apps\<close>, \<^verbatim>\<open>browser\<close>,
  \<^verbatim>\<open>browser_type\<close>) are fields of the state.
\<close>

type_synonym exn = string \<comment> \<open>an exception, by its text \<^verbatim>\<open>str(e)\<close>\<close>

datatype 'a outcome = Returns 'a | Raises exn

type_synonym handle = nat \<comment> \<open>identity of a COM proxy or of a WebDriver object\<close>

datatype jval = JStr string | JBool bool

type_synonym response = "(string \<times> jval) list" \<comment> \<open>a Python dict, in insertion order\<close>

text \<open>\<^verbatim>\<open>dict.update\<close>: an existing key keeps its place and takes the new value, a new
  key is appended.\<close>

fun dict_set :: "string \<Rightarrow> jval \<Rightarrow> response \<Rightarrow> response" where
  "dict_set k v [] = [(k, v)]"
| "dict_set k v ((k', v') # r) = (if k' = k then (k, v) # r else (k', v') # dict_set k v r)"

fun dict_update :: "response \<Rightarrow> response \<Rightarrow> response" where
  "dict_update r [] = r"
| "dict_update r ((k, v) # d) = dict_update (dict_set k v r) d"

text \<open>\<^verbatim>\<open>get_error_response(message, details)\<close>: the key \<^verbatim>\<open>details\<close> is added when
  \<^verbatim>\<open>details\<close> is truthy, that is a non-empty string (\<open>None\<close> stands for the default
  \<^verbatim>\<open>None\<close>).\<close>

definition get_error_response :: "string \<Rightarrow> string option \<Rightarrow> response" where
  "get_error_response message details =
     (let response = [(''success'', JBool False), (''error'', JStr message)] in
      case details of
        None \<Rightarrow> response
      | Some d \<Rightarrow> if d \<noteq> [] then dict_set ''details'' (JStr d) response else response)"

definition get_success_response :: "string \<Rightarrow> response \<Rightarrow> response" where
  "get_success_response message data =
     (let response = [(''success'', JBool True), (''message'', JStr message)] in
      if data \<noteq> [] then dict_update response data else response)"

definition is_success :: "response \<Rightarrow> bool" where
  "is_success r = (map_of r ''success'' = Some (JBool True))"

section \<open>The Office server: handle registry\<close>

datatype office_kind = WordApp | ExcelApp | PowerPointApp

type_synonym doc = nat \<comment> \<open>an open document, workbook or presentation\<close>

text \<open>The COM calls the registry code makes, as they appear in the log.\<close>

datatype com_call =
    CallDispatch office_kind
  | GetVisible handle
  | PutVisible handle
  | GetCount handle
  | CallAdd handle
  | IterDocuments handle
  | CallSave doc
  | CallQuit handle

text \<open>What COM answers.  \<open>Dispatch\<close> is \<^verbatim>\<open>win32com.client.Dispatch(progid)\<close>;
  \<open>Visible\<close> is the read of the property \<^verbatim>\<open>.Visible\<close> (the liveness probe);
  \<open>Documents\<close> is the iteration over \<^verbatim>\<open>.Documents\<close>, \<^verbatim>\<open>.Workbooks\<close> or
  \<^verbatim>\<open>.Presentations\<close>; \<open>Count\<close> and \<open>Add\<close> are \<^verbatim>\<open>.Count\<close> and \<^verbatim>\<open>.Add()\<close> of that
  collection.\<close>

record com_env =
  Dispatch :: "office_kind \<Rightarrow> handle outcome"
  Visible :: "handle \<Rightarrow> bool outcome"
  put_Visible :: "handle \<Rightarrow> unit outcome"
  Count :: "handle \<Rightarrow> int outcome"
  Add :: "handle \<Rightarrow> unit outcome"
  Documents :: "handle \<Rightarrow> doc list outcome"
  Save :: "doc \<Rightarrow> unit outcome"
  Quit :: "handle \<Rightarrow> unit outcome"

text \<open>The dict \<^verbatim>\<open>office_apps\<close> has the three keys \<^verbatim>\<open>'word'\<close>, \<^verbatim>\<open>'excel'\<close>,
  \<^verbatim>\<open>'powerpoint'\<close> from its initialisation on, and no key is ever added or deleted:
  it is a total function from the kind to an optional handle (\<open>None\<close> is Python's
  \<^verbatim>\<open>None\<close>).\<close>

record office_server =
  office_apps :: "office_kind \<Rightarrow> handle option"
  com_log :: "com_call list"


definition logged :: "com_call \<Rightarrow> office_server \<Rightarrow> office_server" where
  "logged c s = s\<lparr>com_log := com_log s @ [c]\<rparr>"

definition set_slot :: "office_kind \<Rightarrow> handle option \<Rightarrow> office_server \<Rightarrow> office_server" where
  "set_slot k v s = s\<lparr>office_apps := (office_apps s)(k := v)\<rparr>"

text \<open>\<^verbatim>\<open>get_or_create_word\<close>, \<^verbatim>\<open>get_or_create_excel\<close> and
  \<^verbatim>\<open>get_or_create_powerpoint\<close> are the same code up to the key and the ProgID, so one
  definition takes the kind.  The \<^verbatim>\<open>try\<close> block covers the probe only; the
  \<^verbatim>\<open>Dispatch\<close> call stands after it, so an exception of \<^verbatim>\<open>Dispatch\<close> leaves the function.\<close>

definition get_or_create :: "office_kind \<Rightarrow> com_env \<Rightarrow> office_server \<Rightarrow> handle outcome \<times> office_server" where
  "get_or_create k env s =
     (let create = (\<lambda>s1.
            case Dispatch env k of
              Raises e \<Rightarrow> (Raises e, logged (CallDispatch k) s1)
            | Returns h' \<Rightarrow> (Returns h', set_slot k (Some h') (logged (CallDispatch k) s1)))
      in case office_apps s k of
           None \<Rightarrow> create s
         | Some h \<Rightarrow>
             (case Visible env h of
                Returns _ \<Rightarrow> (Returns h, logged (GetVisible h) s)
              | Raises _ \<Rightarrow> create (set_slot k None (logged (GetVisible h) s))))"

definition get_or_create_word :: "com_env \<Rightarrow> office_server \<Rightarrow> handle outcome \<times> office_server" where
  "get_or_create_word = get_or_create WordApp"

definition get_or_create_excel :: "com_env \<Rightarrow> office_server \<Rightarrow> handle outcome \<times> office_server" where
  "get_or_create_excel = get_or_create ExcelApp"

definition get_or_create_powerpoint :: "com_env \<Rightarrow> office_server \<Rightarrow> handle outcome \<times> office_server" where
  "get_or_create_powerpoint = get_or_create PowerPointApp"

definition app_name :: "office_kind \<Rightarrow> string" where
  "app_name k = (case k of WordApp \<Rightarrow> ''Word'' | ExcelApp \<Rightarrow> ''Excel'' | PowerPointApp \<Rightarrow> ''PowerPoint'')"

text \<open>\<^verbatim>\<open>word_launch\<close>, \<^verbatim>\<open>excel_launch\<close>, \<^verbatim>\<open>powerpoint_launch\<close>: every exception of
  the body becomes the error response \<^verbatim>\<open>'Failed to launch <App>'\<close> with the exception's
  text as details.\<close>

definition office_launch :: "office_kind \<Rightarrow> com_env \<Rightarrow> office_server \<Rightarrow> response \<times> office_server" where
  "office_launch k env s =
     (let failed = (\<lambda>e. get_error_response (''Failed to launch '' @ app_name k) (Some e));
          launched = get_success_response (app_name k @ '' launched successfully'') []
      in case get_or_create k env s of
           (Raises e, s1) \<Rightarrow> (failed e, s1)
         | (Returns h, s1) \<Rightarrow>
             (case put_Visible env h of
                Raises e \<Rightarrow> (failed e, logged (PutVisible h) s1)
              | Returns _ \<Rightarrow>
                  (let s2 = logged (GetCount h) (logged (PutVisible h) s1) in
                   case Count env h of
                     Raises e \<Rightarrow> (failed e, s2)
                   | Returns n \<Rightarrow>
                       if n = 0 then
                         (case Add env h of
                            Raises e \<Rightarrow> (failed e, logged (CallAdd h) s2)
                          | Returns _ \<Rightarrow> (launched, logged (CallAdd h) s2))
                       else (launched, s2))))"

definition word_launch :: "com_env \<Rightarrow> office_server \<Rightarrow> response \<times> office_server" where
  "word_launch = office_launch WordApp"

text \<open>The loop \<^verbatim>\<open>for doc in app.Documents: doc.Save()\<close>: it stops at the first
  \<^verbatim>\<open>Save\<close> that raises.\<close>

fun save_each :: "com_env \<Rightarrow> doc list \<Rightarrow> office_server \<Rightarrow> unit outcome \<times> office_server" where
  "save_each env [] s = (Returns (), s)"
| "save_each env (d # ds) s =
     (case Save env d of
        Raises e \<Rightarrow> (Raises e, logged (CallSave d) s)
      | Returns _ \<Rightarrow> save_each env ds (logged (CallSave d) s))"

text \<open>\<^verbatim>\<open>word_close\<close>, \<^verbatim>\<open>excel_close\<close>, \<^verbatim>\<open>powerpoint_close\<close>.  The argument \<open>req\<close> is
  the outcome of reading the request: \<^verbatim>\<open>request.json or {}\<close> may raise, and otherwise
  the code needs the truth value of \<^verbatim>\<open>data.get('save', False)\<close> only.  The request is
  read inside the \<^verbatim>\<open>if\<close>, so only when a handle is held.  A COM proxy is always truthy
  (its \<^verbatim>\<open>__bool__\<close> returns \<^verbatim>\<open>True\<close>), so \<^verbatim>\<open>if office_apps[k]:\<close> tests for
  \<^verbatim>\<open>None\<close>.\<close>

definition office_close :: "office_kind \<Rightarrow> com_env \<Rightarrow> bool outcome \<Rightarrow> office_server \<Rightarrow> response \<times> office_server" where
  "office_close k env req s =
     (let failed = (\<lambda>e. get_error_response (''Failed to close '' @ app_name k) (Some e));
          closed = get_success_response (app_name k @ '' closed'') []
      in case office_apps s k of
           None \<Rightarrow> (closed, s)
         | Some h \<Rightarrow>
             (case req of
                Raises e \<Rightarrow> (failed e, s)
              | Returns save \<Rightarrow>
                  (case (if save then
                           (case Documents env h of
                              Raises e \<Rightarrow> (Raises e, logged (IterDocuments h) s)
                            | Returns ds \<Rightarrow> save_each env ds (logged (IterDocuments h) s))
                         else (Returns (), s)) of
                     (Raises e, s1) \<Rightarrow> (failed e, s1)
                   | (Returns _, s1) \<Rightarrow>
                       (case Quit env h of
                          Raises e \<Rightarrow> (failed e, logged (CallQuit h) s1)
                        | Returns _ \<Rightarrow> (closed, set_slot k None (logged (CallQuit h) s1))))))"

definition word_close :: "com_env \<Rightarrow> bool outcome \<Rightarrow> office_server \<Rightarrow> response \<times> office_server" where
  "word_close = office_close WordApp"

definition excel_close :: "com_env \<Rightarrow> bool outcome \<Rightarrow> office_server \<Rightarrow> response \<times> office_server" where
  "excel_close = office_close ExcelApp"

definition powerpoint_close :: "com_env \<Rightarrow> bool outcome \<Rightarrow> office_server \<Rightarrow> response \<times> office_server" where
  "powerpoint_close = office_close PowerPointApp"

text \<open>The loop of \<^verbatim>\<open>shutdown\<close> over \<^verbatim>\<open>['word', 'excel', 'powerpoint']\<close>: each kind in
  its own \<^verbatim>\<open>try\<close>, every exception passed over.\<close>

fun shutdown_apps :: "com_env \<Rightarrow> office_kind list \<Rightarrow> office_server \<Rightarrow> office_server" where
  "shutdown_apps env [] s = s"
| "shutdown_apps env (k # ks) s =
     shutdown_apps env ks
       (case office_apps s k of
          None \<Rightarrow> s
        | Some h \<Rightarrow>
            (case Quit env h of
               Raises _ \<Rightarrow> logged (CallQuit h) s
             | Returns _ \<Rightarrow> set_slot k None (logged (CallQuit h) s)))"

definition shutdown :: "com_env \<Rightarrow> office_server \<Rightarrow> response \<times> office_server" where
  "shutdown env s =
     ([(''success'', JBool True), (''message'', JStr ''Server shutting down'')],
      shutdown_apps env [WordApp, ExcelApp, PowerPointApp] s)"

section \<open>The Office server: window locator\<close>

text \<open>Python's \<^verbatim>\<open>str.lower()\<close>, on the ASCII letters (window classes and the patterns the
  servers pass are ASCII; every other character is left as it is).\<close>

definition lower_char :: "char \<Rightarrow> char" where
  "lower_char c =
     (let n = (of_char c :: nat) in if 65 \<le> n \<and> n \<le> 90 then char_of (n + 32) else c)"

definition lower :: "string \<Rightarrow> string" where
  "lower s = map lower_char s"

text \<open>Python's \<^verbatim>\<open>needle in haystack\<close> on strings: the needle occurs as a contiguous
  run.\<close>

fun is_prefix :: "'a list \<Rightarrow> 'a list \<Rightarrow> bool" where
  "is_prefix [] ys = True"
| "is_prefix (x # xs) [] = False"
| "is_prefix (x # xs) (y # ys) = (x = y \<and> is_prefix xs ys)"

fun str_in :: "'a list \<Rightarrow> 'a list \<Rightarrow> bool" where
  "str_in xs [] = (xs = [])"
| "str_in xs (y # ys) = (is_prefix xs (y # ys) \<or> str_in xs ys)"

text \<open>A top-level window as the enumeration callback sees it: its handle, and the
  answers of \<^verbatim>\<open>IsWindowVisible\<close>, \<^verbatim>\<open>GetWindowText\<close> and \<^verbatim>\<open>GetClassName\<close>.\<close>

record window =
  win_hwnd :: int
  win_visible :: bool
  win_title :: string
  win_class :: string

text \<open>A monitor dict of \<^verbatim>\<open>mss\<close>: the keys \<^verbatim>\<open>left\<close>, \<^verbatim>\<open>top\<close>, \<^verbatim>\<open>width\<close>,
  \<^verbatim>\<open>height\<close>.\<close>

record monitor =
  mon_left :: int
  mon_top :: int
  mon_width :: int
  mon_height :: int

text \<open>The calls of the two servers into the Win32 API and the capture libraries, as they
  appear in a log.  \<open>GetWindowThreads\<close> stands for \<^verbatim>\<open>GetForegroundWindow\<close> and the two
  \<^verbatim>\<open>GetWindowThreadProcessId\<close> of \<^verbatim>\<open>bring_window_to_front\<close>; \<open>GetWindowDC\<close> for the
  set-up of the device contexts and the bitmap; \<open>ReleaseDC\<close> for the clean-up.\<close>

datatype win_call =
    CallFindWindow "string option"
  | CallEnumWindows
  | ShowWindow int int
  | Sleep int
  | GetWindowRect int
  | SetWindowPos int int int int int int int
  | SetForegroundWindow int
  | IsIconic int
  | BringWindowToTop int
  | GetWindowThreads int
  | AttachThreadInput int int bool
  | ImportMss
  | MssGrab monitor
  | ImportPyautogui
  | PyautoguiScreenshot int int int int
  | GetWindowDC int
  | PrintWindow int
  | BitBlt int int
  | GetBitmapBits
  | ReleaseDC int
  | SavePNG







section \<open>The Office server: window positioning and the capture chain\<close>

type_synonym byte = "8 word"

type_synonym rect = "int \<times> int \<times> int \<times> int" \<comment> \<open>left, top, right, bottom\<close>

text \<open>A PIL image: its size and its pixel data.\<close>

record image =
  img_width :: int
  img_height :: int
  img_pixels :: "byte list"

text \<open>What the outside answers to \<^verbatim>\<open>capture_window_screenshot\<close>, one field per call
  site.  \<open>rect_first\<close>, \<open>rect_maximized\<close>, \<open>rect_final\<close> are the three
  \<^verbatim>\<open>win32gui.GetWindowRect(hwnd)\<close>; \<open>foreground\<close> is \<^verbatim>\<open>win32gui.SetForegroundWindow\<close>;
  \<open>mss_primary\<close> is \<^verbatim>\<open>import mss\<close>, \<^verbatim>\<open>mss.mss()\<close> and \<^verbatim>\<open>sct.monitors[1]\<close>;
  \<open>mss_grab\<close> is \<^verbatim>\<open>sct.grab(monitor)\<close> with \<^verbatim>\<open>Image.frombytes\<close>, giving the pixels;
  \<open>png_chunks\<close> is what \<^verbatim>\<open>img.save(buffer, format='PNG')\<close> writes after the PNG
  signature; \<open>pyautogui_size\<close> is \<^verbatim>\<open>import pyautogui\<close> and \<^verbatim>\<open>pyautogui.size()\<close>;
  \<open>pyautogui_screenshot\<close> is \<^verbatim>\<open>pyautogui.screenshot(region=...)\<close>; \<open>window_dc\<close> is the
  set-up of the device contexts and the bitmap (\<^verbatim>\<open>GetWindowDC\<close> to \<^verbatim>\<open>SelectObject\<close>);
  \<open>print_window\<close> is the truth value of \<^verbatim>\<open>PrintWindow(hwnd, hdc, 2)\<close>; \<open>bit_blt\<close> is
  \<^verbatim>\<open>save_dc.BitBlt\<close>; \<open>bitmap_image\<close> is \<^verbatim>\<open>GetInfo\<close>, \<^verbatim>\<open>GetBitmapBits\<close> and
  \<^verbatim>\<open>Image.frombuffer\<close>; \<open>release_dc\<close> is the clean-up (\<^verbatim>\<open>DeleteObject\<close> to
  \<^verbatim>\<open>ReleaseDC\<close>).  The \<^verbatim>\<open>ctypes\<close> calls \<^verbatim>\<open>ShowWindow\<close> and \<^verbatim>\<open>SetWindowPos\<close> and
  \<^verbatim>\<open>win32api.Sleep\<close> return a status the code ignores.\<close>

record capture_env =
  rect_first :: "rect outcome"
  rect_maximized :: "rect outcome"
  foreground :: "unit outcome"
  rect_final :: "rect outcome"
  mss_primary :: "monitor outcome"
  mss_grab :: "monitor \<Rightarrow> byte list outcome"
  png_chunks :: "image \<Rightarrow> byte list outcome"
  pyautogui_size :: "(int \<times> int) outcome"
  pyautogui_screenshot :: "int \<times> int \<times> int \<times> int \<Rightarrow> image outcome"
  window_dc :: "unit outcome"
  print_window :: "bool outcome"
  bit_blt :: "unit outcome"
  bitmap_image :: "image outcome"
  release_dc :: "unit outcome"

text \<open>\<^verbatim>\<open>base64.b64encode(data).decode('utf-8')\<close>.\<close>

definition b64_char :: "nat \<Rightarrow> char" where
  "b64_char i =
     (''ABCDEFGHIJKLMNOPQRSTUVWXYZabcdefghijklmnopqrstuvwxyz0123456789+/'') ! i"

fun b64encode :: "byte list \<Rightarrow> string" where
  "b64encode [] = []"
| "b64encode [a] =
     [b64_char (unat a div 4), b64_char (unat a mod 4 * 16), CHR ''='', CHR ''='']"
| "b64encode [a, b] =
     [b64_char (unat a div 4), b64_char (unat a mod 4 * 16 + unat b div 16),
      b64_char (unat b mod 16 * 4), CHR ''='']"
| "b64encode (a # b # c # rest) =
     [b64_char (unat a div 4), b64_char (unat a mod 4 * 16 + unat b div 16),
      b64_char (unat b mod 16 * 4 + unat c div 64), b64_char (unat c mod 64)]
     @ b64encode rest"

text \<open>A PNG stream starts with the eight bytes of the PNG signature; the chunks follow.\<close>

definition png_signature :: "byte list" where
  "png_signature = [137, 80, 78, 71, 13, 10, 26, 10]"

text \<open>\<^verbatim>\<open>buffer = io.BytesIO(); img.save(buffer, format='PNG');
  return base64.b64encode(buffer.getvalue()).decode('utf-8')\<close>, the common end of the three
  strategies.\<close>

definition encode_png :: "capture_env \<Rightarrow> image \<Rightarrow> win_call list \<Rightarrow> string outcome \<times> win_call list" where
  "encode_png env img cs =
     (case png_chunks env img of
        Raises e \<Rightarrow> (Raises e, cs @ [SavePNG])
      | Returns chunks \<Rightarrow> (Returns (b64encode (png_signature @ chunks)), cs @ [SavePNG]))"





text \<open>Strategy 3, lines 214 to 245.  Only the call of \<^verbatim>\<open>PrintWindow\<close> has a \<^verbatim>\<open>try\<close>
  of its own; \<^verbatim>\<open>BitBlt\<close> is called when \<^verbatim>\<open>PrintWindow\<close> answers false or raises.\<close>

definition strategy_print_window :: "capture_env \<Rightarrow> int \<Rightarrow> rect \<Rightarrow> win_call list \<Rightarrow> string outcome \<times> win_call list" where
  "strategy_print_window env hwnd r cs =
     (case r of (x_left, y_top, x_right, y_bottom) \<Rightarrow>
        (let width = x_right - x_left; height = y_bottom - y_top in
         case window_dc env of
           Raises e \<Rightarrow> (Raises e, cs @ [GetWindowDC hwnd])
         | Returns _ \<Rightarrow>
             (let cs1 = cs @ [GetWindowDC hwnd, PrintWindow hwnd];
                  blt = (case print_window env of
                           Returns ok \<Rightarrow> if ok then (Returns (), cs1)
                                         else (bit_blt env, cs1 @ [BitBlt width height])
                         | Raises _ \<Rightarrow> (bit_blt env, cs1 @ [BitBlt width height]))
              in case blt of
                   (Raises e, cs2) \<Rightarrow> (Raises e, cs2)
                 | (Returns _, cs2) \<Rightarrow>
                     (case bitmap_image env of
                        Raises e \<Rightarrow> (Raises e, cs2 @ [GetBitmapBits])
                      | Returns img \<Rightarrow>
                          (case release_dc env of
                             Raises e \<Rightarrow> (Raises e, cs2 @ [GetBitmapBits, ReleaseDC hwnd])
                           | Returns _ \<Rightarrow> encode_png env img (cs2 @ [GetBitmapBits, ReleaseDC hwnd]))))))"




section \<open>The browser server\<close>

datatype browser_kind = Chrome | Edge



text \<open>The calls of the browser server into Selenium, as they appear in the log, and
  those into the Win32 API (\<^verbatim>\<open>SW_RESTORE\<close> is 9, \<^verbatim>\<open>SW_SHOW\<close> is 5).\<close>

datatype wd_call =
    NewChrome bool
  | NewEdge bool
  | CallQuitBrowser handle
  | SleepSeconds
  | ExecuteScript handle string
  | SetWindowSize handle int int
  | GetScreenshot handle
  | GetCurrentUrl handle
  | GetTitle handle
  | Win32 win_call

text \<open>What the outside answers to \<^verbatim>\<open>bring_window_to_front\<close>, one field per call site:
  \<open>front_windows\<close> is the enumeration, \<open>is_iconic\<close> is \<^verbatim>\<open>IsIconic\<close>, \<open>show_restore\<close>
  and \<open>show_show\<close> are the two \<^verbatim>\<open>ShowWindow\<close>, \<open>bring_to_top\<close> is
  \<^verbatim>\<open>BringWindowToTop\<close>, \<open>thread_ids\<close> is the import of \<^verbatim>\<open>win32process\<close> and
  \<^verbatim>\<open>win32api\<close> with \<^verbatim>\<open>GetForegroundWindow\<close> and the two
  \<^verbatim>\<open>GetWindowThreadProcessId\<close> (the foreground thread, the target thread), \<open>attach\<close>
  and \<open>detach\<close> are the two \<^verbatim>\<open>AttachThreadInput\<close>, and \<open>foreground_attached\<close>,
  \<open>foreground_same\<close>, \<open>foreground_fallback\<close> are the calls of
  \<^verbatim>\<open>SetForegroundWindow\<close> on lines 136, 139 and 142.\<close>

record front_env =
  HAS_WIN32 :: bool
  front_windows :: "window list"
  is_iconic :: "bool outcome"
  show_restore :: "unit outcome"
  show_show :: "unit outcome"
  bring_to_top :: "unit outcome"
  thread_ids :: "(int \<times> int) outcome"
  attach :: "unit outcome"
  foreground_attached :: "unit outcome"
  detach :: "unit outcome"
  foreground_same :: "unit outcome"
  foreground_fallback :: "unit outcome"

text \<open>The callback of \<^verbatim>\<open>bring_window_to_front\<close>: no test for an empty pattern here.\<close>

definition front_callback :: "string \<Rightarrow> window \<Rightarrow> int list \<Rightarrow> int list" where
  "front_callback window_title_contains w results =
     (if win_visible w then
        (if str_in (lower window_title_contains) (lower (win_title w)) then results @ [win_hwnd w]
         else results)
      else results)"

text \<open>Lines 126 to 142: \<^verbatim>\<open>SetForegroundWindow\<close> with the thread attach trick, and the
  plain call in the handler.  \<open>Raises\<close> is an exception of the plain call on line 142, on
  its way to the outer handler.\<close>

definition foreground_with_attach :: "front_env \<Rightarrow> int \<Rightarrow> win_call list \<Rightarrow> unit outcome \<times> win_call list" where
  "foreground_with_attach env hwnd cs =
     (let fallback = (\<lambda>cs'. (foreground_fallback env, cs' @ [SetForegroundWindow hwnd])) in
      case thread_ids env of
        Raises _ \<Rightarrow> fallback (cs @ [GetWindowThreads hwnd])
      | Returns (foreground_thread, target_thread) \<Rightarrow>
          if foreground_thread \<noteq> target_thread then
            (let cs1 = cs @ [GetWindowThreads hwnd, AttachThreadInput foreground_thread target_thread True] in
             case attach env of
               Raises _ \<Rightarrow> fallback cs1
             | Returns _ \<Rightarrow>
                 (case foreground_attached env of
                    Raises _ \<Rightarrow> fallback (cs1 @ [SetForegroundWindow hwnd])
                  | Returns _ \<Rightarrow>
                      (let cs2 = cs1 @ [SetForegroundWindow hwnd,
                                        AttachThreadInput foreground_thread target_thread False] in
                       case detach env of
                         Raises _ \<Rightarrow> fallback cs2
                       | Returns _ \<Rightarrow> (Returns (), cs2))))
          else
            (case foreground_same env of
               Raises _ \<Rightarrow> fallback (cs @ [GetWindowThreads hwnd, SetForegroundWindow hwnd])
             | Returns _ \<Rightarrow> (Returns (), cs @ [GetWindowThreads hwnd, SetForegroundWindow hwnd])))"

definition bring_window_to_front :: "front_env \<Rightarrow> string \<Rightarrow> bool \<times> win_call list" where
  "bring_window_to_front env window_title_contains =
     (if \<not> HAS_WIN32 env then (False, [])
      else
        (let results = fold (front_callback window_title_contains) (front_windows env) [];
             cs0 = [CallEnumWindows]
         in case results of
              [] \<Rightarrow> (False, cs0)
            | hwnd # _ \<Rightarrow>
                (let restored =
                       (case is_iconic env of
                          Raises e \<Rightarrow> (Raises e, cs0 @ [IsIconic hwnd])
                        | Returns iconic \<Rightarrow>
                            if iconic then (show_restore env, cs0 @ [IsIconic hwnd, ShowWindow hwnd 9])
                            else (Returns (), cs0 @ [IsIconic hwnd]))
                 in case restored of
                      (Raises _, cs1) \<Rightarrow> (False, cs1)
                    | (Returns _, cs1) \<Rightarrow>
                        (case show_show env of
                           Raises _ \<Rightarrow> (False, cs1 @ [ShowWindow hwnd 5])
                         | Returns _ \<Rightarrow>
                             (let cs2 = cs1 @ [ShowWindow hwnd 5, BringWindowToTop hwnd] in
                              case bring_to_top env of
                                Raises _ \<Rightarrow> (False, cs2)
                              | Returns _ \<Rightarrow>
                                  (case foreground_with_attach env hwnd cs2 of
                                     (Raises _, cs3) \<Rightarrow> (False, cs3)
                                   | (Returns _, cs3) \<Rightarrow> (True, cs3)))))))"

text \<open>What Selenium and the file system answer: \<open>chrome_path\<close> and \<open>edge_path\<close> say
  whether \<^verbatim>\<open>find_chrome_path()\<close> and \<^verbatim>\<open>find_edge_path()\<close> find an executable;
  \<open>new_chrome\<close> and \<open>new_edge\<close> are \<^verbatim>\<open>webdriver.Chrome(options=options)\<close> and
  \<^verbatim>\<open>webdriver.Edge(options=options)\<close>, given the headless flag; \<open>quit_browser\<close> is
  \<^verbatim>\<open>browser.quit()\<close>; \<open>scroll_height\<close> and \<open>scroll_width\<close> are the two
  \<^verbatim>\<open>execute_script\<close> of the screenshot; \<open>set_window_size\<close>, \<open>screenshot_base64\<close>,
  \<open>current_url\<close>, \<open>page_title\<close> are the WebDriver calls of these names.\<close>

record wd_env =
  chrome_path :: bool
  edge_path :: bool
  new_chrome :: "bool \<Rightarrow> handle outcome"
  new_edge :: "bool \<Rightarrow> handle outcome"
  quit_browser :: "handle \<Rightarrow> unit outcome"
  front :: front_env
  scroll_height :: "int outcome"
  scroll_width :: "int outcome"
  set_window_size :: "unit outcome"
  screenshot_base64 :: "string outcome"
  current_url :: "string outcome"
  page_title :: "string outcome"

text \<open>The globals \<^verbatim>\<open>browser\<close> and \<^verbatim>\<open>browser_type\<close>, the log, and the size of each
  session's window as \<^verbatim>\<open>set_window_size\<close> last left it (\<open>None\<close>: never set by the
  server).\<close>

record browser_server =
  browser :: "handle option"
  browser_type :: browser_kind
  window_size :: "handle \<Rightarrow> (int \<times> int) option"
  wd_log :: "wd_call list"

definition initial_browser_server :: browser_server where
  "initial_browser_server =
     \<lparr>browser = None, browser_type = Chrome, window_size = (\<lambda>_. None), wd_log = []\<rparr>"

definition wd_logged :: "wd_call list \<Rightarrow> browser_server \<Rightarrow> browser_server" where
  "wd_logged cs s = s\<lparr>wd_log := wd_log s @ cs\<rparr>"



text \<open>\<^verbatim>\<open>browser_screenshot\<close>; \<open>arg\<close> is the query argument \<^verbatim>\<open>full_page\<close>
  (\<open>None\<close> when the request has none, so that the default \<^verbatim>\<open>'false'\<close> stands).\<close>

definition browser_screenshot :: "wd_env \<Rightarrow> string option \<Rightarrow> browser_server \<Rightarrow> response \<times> browser_server" where
  "browser_screenshot env arg s =
     (let failed = (\<lambda>e. get_error_response ''Failed to take screenshot'' (Some e)) in
      case browser s of
        None \<Rightarrow> (get_error_response ''Browser not running'' (Some ''Use /browser/launch first''), s)
      | Some b \<Rightarrow>
          (let full_page = (lower (case arg of None \<Rightarrow> ''false'' | Some a \<Rightarrow> a) = ''true'');
               resized =
                 (if full_page then
                    (case scroll_height env of
                       Raises e \<Rightarrow>
                         (Raises e, wd_logged [ExecuteScript b ''return document.body.scrollHeight''] s)
                     | Returns total_height \<Rightarrow>
                         (let s1 = wd_logged [ExecuteScript b ''return document.body.scrollHeight'',
                                              ExecuteScript b ''return document.body.scrollWidth''] s in
                          case scroll_width env of
                            Raises e \<Rightarrow> (Raises e, s1)
                          | Returns total_width \<Rightarrow>
                              (let w = max total_width 1920;
                                   h = max total_height 1080;
                                   s2 = wd_logged [SetWindowSize b w h] s1 in
                               case set_window_size env of
                                 Raises e \<Rightarrow> (Raises e, s2)
                               | Returns _ \<Rightarrow>
                                   (Returns (),
                                    wd_logged [SleepSeconds]
                                      (s2\<lparr>window_size := (window_size s2)(b := Some (w, h))\<rparr>)))))
                  else (Returns (), s))
           in case resized of
                (Raises e, s3) \<Rightarrow> (failed e, s3)
              | (Returns _, s3) \<Rightarrow>
                  (case screenshot_base64 env of
                     Raises e \<Rightarrow> (failed e, wd_logged [GetScreenshot b] s3)
                   | Returns screenshot \<Rightarrow>
                       (case current_url env of
                          Raises e \<Rightarrow> (failed e, wd_logged [GetScreenshot b, GetCurrentUrl b] s3)
                        | Returns url \<Rightarrow>
                            (case page_title env of
                               Raises e \<Rightarrow>
                                 (failed e, wd_logged [GetScreenshot b, GetCurrentUrl b, GetTitle b] s3)
                             | Returns title \<Rightarrow>
                                 (get_success_response ''Screenshot captured''
                                    [(''image'', JStr screenshot), (''format'', JStr ''png''),
                                     (''encoding'', JStr ''base64''), (''url'', JStr url),
                                     (''title'', JStr title)],
                                  wd_logged [GetScreenshot b, GetCurrentUrl b, GetTitle b] s3))))))"

section \<open>Reading the logs\<close>




definition is_SetWindowSize :: "wd_call \<Rightarrow> bool" where
  "is_SetWindowSize c = (case c of SetWindowSize _ _ _ \<Rightarrow> True | _ \<Rightarrow> False)"

section \<open>Example environments\<close>

text \<open>Concrete answers of the outside world, on which the definitions are evaluated.
  \<open>live_com_env\<close>: every Office application starts and answers; \<open>killed_com_env\<close>: the
  processes behind the held handles are gone, a new \<^verbatim>\<open>Dispatch\<close> succeeds;
  \<open>no_office_com_env\<close>: in addition \<^verbatim>\<open>Dispatch\<close> fails.\<close>

definition live_com_env :: com_env where
  "live_com_env =
     \<lparr>Dispatch = (\<lambda>k. Returns (case k of WordApp \<Rightarrow> 1 | ExcelApp \<Rightarrow> 2 | PowerPointApp \<Rightarrow> 3)),
      Visible = (\<lambda>_. Returns True),
      put_Visible = (\<lambda>_. Returns ()),
      Count = (\<lambda>_. Returns 0),
      Add = (\<lambda>_. Returns ()),
      Documents = (\<lambda>_. Returns [10, 11]),
      Save = (\<lambda>_. Returns ()),
      Quit = (\<lambda>_. Returns ())\<rparr>"

definition killed_com_env :: com_env where
  "killed_com_env =
     live_com_env\<lparr>Dispatch := (\<lambda>_. Returns 4),
                    Visible := (\<lambda>_. Raises ''The RPC server is unavailable.''),
                    Quit := (\<lambda>_. Raises ''The RPC server is unavailable.'')\<rparr>"

definition no_office_com_env :: com_env where
  "no_office_com_env =
     killed_com_env\<lparr>Dispatch := (\<lambda>_. Raises ''Invalid class string'')\<rparr>"

text \<open>\<open>busy_com_env\<close>: the applications run, but \<^verbatim>\<open>Quit\<close> is rejected (a dialog is
  open).\<close>

definition busy_com_env :: com_env where
  "busy_com_env = live_com_env\<lparr>Quit := (\<lambda>_. Raises ''Call was rejected by callee.'')\<rparr>"

text \<open>The server after one \<^verbatim>\<open>get_or_create_word()\<close> on a fresh registry.\<close>

definition word_held :: office_server where
  "word_held = \<lparr>office_apps = (\<lambda>_. None)(WordApp := Some 1), com_log = [CallDispatch WordApp]\<rparr>"

text \<open>The browser server's outside: no \<^verbatim>\<open>pywin32\<close>; Chrome is installed and starts, the
  new WebDriver object being \<open>n\<close>.\<close>

definition no_win32 :: front_env where
  "no_win32 =
     \<lparr>HAS_WIN32 = False, front_windows = [], is_iconic = Returns False,
      show_restore = Returns (), show_show = Returns (), bring_to_top = Returns (),
      thread_ids = Returns (0, 0), attach = Returns (), foreground_attached = Returns (),
      detach = Returns (), foreground_same = Returns (), foreground_fallback = Returns ()\<rparr>"

definition chrome_wd_env :: "handle \<Rightarrow> wd_env" where
  "chrome_wd_env n =
     \<lparr>chrome_path = True, edge_path = False,
      new_chrome = (\<lambda>_. Returns n), new_edge = (\<lambda>_. Raises ''msedge not found''),
      quit_browser = (\<lambda>_. Returns ()), front = no_win32,
      scroll_height = Returns 3000, scroll_width = Returns 1280, set_window_size = Returns (),
      screenshot_base64 = Returns ''iVBORw0KGgo='', current_url = Returns ''about:blank'',
      page_title = Returns ''''\<rparr>"

text \<open>The browser server after one headless launch of Chrome.\<close>

definition chrome_running :: browser_server where
  "chrome_running = initial_browser_server\<lparr>browser := Some 1, wd_log := [NewChrome True]\<rparr>"


definition excel_window :: window where
  "excel_window = \<lparr>win_hwnd = 102, win_visible = True, win_title = ''Budget.xlsx - Excel'', win_class = ''XLMAIN''\<rparr>"












text \<open>A desktop for \<^verbatim>\<open>bring_window_to_front\<close>: a Chrome window owned by thread 22 while
  thread 11 owns the foreground; and a browser showing a page 5400 pixels high.\<close>

definition chrome_front_env :: front_env where
  "chrome_front_env =
     \<lparr>HAS_WIN32 = True,
      front_windows =
        [excel_window,
         \<lparr>win_hwnd = 555, win_visible = True, win_title = ''New Tab - Google Chrome'',
          win_class = ''Chrome_WidgetWin_1''\<rparr>],
      is_iconic = Returns False, show_restore = Returns (), show_show = Returns (),
      bring_to_top = Returns (), thread_ids = Returns (11, 22), attach = Returns (),
      foreground_attached = Returns (), detach = Returns (), foreground_same = Returns (),
      foreground_fallback = Returns ()\<rparr>"

definition long_page_env :: wd_env where
  "long_page_env = (chrome_wd_env 1)\<lparr>scroll_height := Returns 5400, scroll_width := Returns 1280\<rparr>"

section \<open>Properties\<close>

subsection \<open>Responses\<close>

lemma is_success_error: "\<not> is_success (get_error_response m d)"
  by (auto simp: is_success_def get_error_response_def Let_def split: option.splits)

lemma is_success_no_data: "is_success (get_success_response m [])"
  by (simp add: is_success_def get_success_response_def)

subsection \<open>The handle registry\<close>


lemma get_or_create_frame:
  "k' \<noteq> k \<Longrightarrow> office_apps (snd (get_or_create k env s)) k' = office_apps s k'"
  by (auto simp: get_or_create_def logged_def set_slot_def split: option.splits outcome.splits)

text \<open>
  Claim C4.  When a handle is held for the kind and its liveness probe (the read of
  \<^verbatim>\<open>.Visible\<close>) raises, whatever the exception, \<^verbatim>\<open>get_or_create\<close> clears the slot and
  calls \<^verbatim>\<open>Dispatch\<close>: its outcome is the outcome of \<^verbatim>\<open>Dispatch\<close> and nothing of the
  probe's exception; the calls made are the probe and the \<^verbatim>\<open>Dispatch\<close>; the slot holds the
  new handle, or nothing when \<^verbatim>\<open>Dispatch\<close> raised; every other slot is as before.  An
  exception of \<^verbatim>\<open>Dispatch\<close> reaches the launch endpoint, which answers with the error
  response \<^verbatim>\<open>Failed to launch <App>\<close> carrying the exception's text.
\<close>

theorem stale_handle_discarded_and_recreated:
  assumes "office_apps s k = Some h" and "Visible env h = Raises e"
  shows "fst (get_or_create k env s) = Dispatch env k \<and>
         com_log (snd (get_or_create k env s)) = com_log s @ [GetVisible h, CallDispatch k] \<and>
         office_apps (snd (get_or_create k env s)) =
           (office_apps s)(k := (case Dispatch env k of Returns h' \<Rightarrow> Some h' | Raises _ \<Rightarrow> None)) \<and>
         (\<forall>e'. Dispatch env k = Raises e' \<longrightarrow>
            fst (office_launch k env s) =
              get_error_response (''Failed to launch '' @ app_name k) (Some e'))"
  using assms
  by (auto simp: get_or_create_def logged_def set_slot_def Let_def office_launch_def
      split: option.splits outcome.splits)

theorem stale_handle_witness:
  "office_apps word_held WordApp = Some 1 \<and>
   Visible killed_com_env 1 = Raises ''The RPC server is unavailable.'' \<and>
   get_or_create WordApp killed_com_env word_held =
     (Returns 4, \<lparr>office_apps = (\<lambda>_. None)(WordApp := Some 4),
                   com_log = [CallDispatch WordApp, GetVisible 1, CallDispatch WordApp]\<rparr>) \<and>
   Dispatch no_office_com_env WordApp = Raises ''Invalid class string'' \<and>
   fst (get_or_create WordApp no_office_com_env word_held) = Raises ''Invalid class string'' \<and>
   office_apps (snd (get_or_create WordApp no_office_com_env word_held)) WordApp = None \<and>
   fst (word_launch no_office_com_env word_held) =
     [(''success'', JBool False), (''error'', JStr ''Failed to launch Word''),
      (''details'', JStr ''Invalid class string'')]"
proof -
  have held: "office_apps word_held WordApp = Some 1"
    by (simp add: word_held_def)
  have dead: "Visible killed_com_env 1 = Raises ''The RPC server is unavailable.''"
    by (simp add: killed_com_env_def live_com_env_def)
  have dead': "Visible no_office_com_env 1 = Raises ''The RPC server is unavailable.''"
    by (simp add: no_office_com_env_def killed_com_env_def live_com_env_def)
  have d1: "Dispatch killed_com_env WordApp = Returns 4"
    by (simp add: killed_com_env_def live_com_env_def)
  have d2: "Dispatch no_office_com_env WordApp = Raises ''Invalid class string''"
    by (simp add: no_office_com_env_def killed_com_env_def live_com_env_def)
  note a = stale_handle_discarded_and_recreated[OF held dead]
  note b = stale_handle_discarded_and_recreated[OF held dead']
  have r1: "get_or_create WordApp killed_com_env word_held =
     (Returns 4, \<lparr>office_apps = (\<lambda>_. None)(WordApp := Some 4),
                   com_log = [CallDispatch WordApp, GetVisible 1, CallDispatch WordApp]\<rparr>)"
    using a d1
    by (cases "get_or_create WordApp killed_com_env word_held") (auto simp: word_held_def)
  show ?thesis
    using held dead d2 r1 b
    by (simp add: word_launch_def get_error_response_def app_name_def)
qed




lemma save_each_slots: "office_apps (snd (save_each env ds s)) = office_apps s"
  by (induction ds arbitrary: s) (auto simp: logged_def split: outcome.splits)

lemma save_each_slotsD:
  "save_each env ds s = (r, s1) \<Longrightarrow> office_apps s1 = office_apps s"
  using save_each_slots[of env ds s] by simp

lemma office_close_slots:
  "office_apps (snd (office_close k env req s)) =
     (if is_success (fst (office_close k env req s)) then (office_apps s)(k := None)
      else office_apps s)"
proof (cases "office_apps s k")
  case None
  then have "(office_apps s)(k := None) = office_apps s" by (metis fun_upd_idem)
  with None show ?thesis by (simp add: office_close_def Let_def)
next
  case (Some h)
  then show ?thesis
    by (auto simp: office_close_def Let_def logged_def set_slot_def is_success_error
        is_success_no_data
        split: outcome.splits prod.splits if_splits dest!: save_each_slotsD)
qed

lemma office_close_frame:
  "k' \<noteq> k \<Longrightarrow> office_apps (snd (office_close k env req s)) k' = office_apps s k'"
  by (simp add: office_close_slots)

lemma office_close_success:
  assumes "office_apps s k = Some h" and "office_close k env req s = (r, s1)" and "is_success r"
  shows "Quit env h = Returns () \<and> last (com_log s1) = CallQuit h"
  using assms
  by (auto simp: office_close_def Let_def logged_def set_slot_def is_success_error
      split: outcome.splits prod.splits if_splits)

lemma get_or_create_empty:
  "office_apps s k = None \<Longrightarrow>
   fst (get_or_create k env s) = Dispatch env k \<and>
   com_log (snd (get_or_create k env s)) = com_log s @ [CallDispatch k] \<and>
   office_apps (snd (get_or_create k env s)) k = (case Dispatch env k of Returns h' \<Rightarrow> Some h' | Raises _ \<Rightarrow> None)"
  by (auto simp: get_or_create_def logged_def set_slot_def split: outcome.splits)

lemma office_launch_slots:
  "office_apps (snd (office_launch k env s)) = office_apps (snd (get_or_create k env s))"
  by (cases "get_or_create k env s")
     (auto simp: office_launch_def Let_def logged_def split: outcome.splits)

lemma shutdown_step:
  "(case office_apps s k of
          None \<Rightarrow> s
        | Some h \<Rightarrow>
            (case Quit env h of
               Raises _ \<Rightarrow> logged (CallQuit h) s
             | Returns _ \<Rightarrow> set_slot k None (logged (CallQuit h) s))) =
   snd (office_close k env (Returns False) s)"
  by (auto simp: office_close_def Let_def split: option.splits outcome.splits)

lemma shutdown_is_release_of_each_kind:
  "snd (shutdown env s) =
     snd (powerpoint_close env (Returns False)
       (snd (excel_close env (Returns False) (snd (word_close env (Returns False) s)))))"
  by (simp add: shutdown_def shutdown_step word_close_def excel_close_def powerpoint_close_def)





lemma office_close_success_slot:
  assumes "office_close k env req s = (r, s1)" and "is_success r"
  shows "office_apps s1 k = None"
  using office_close_slots[of k env req s] assms by simp

text \<open>
  Claim C5, as amended.  The registry has one slot per kind (\<open>office_apps\<close> maps each kind
  to at most one handle), and the operations on a kind leave the slots of the other kinds
  alone: \<^verbatim>\<open>get_or_create\<close> and the close endpoint of kind \<open>k\<close> change no slot but \<open>k\<close>'s;
  the launch endpoint changes the registry as its \<^verbatim>\<open>get_or_create\<close> does; the server's
  \<^verbatim>\<open>shutdown\<close> leaves the state that closing Word, Excel and PowerPoint in turn (nothing
  saved) leaves.  A close that reports a failure leaves every slot as it was.  A close of
  kind \<open>k\<close> that holds the handle \<open>h\<close> and reports success has called \<^verbatim>\<open>Quit\<close> on \<open>h\<close>
  last, \<^verbatim>\<open>Quit\<close> has returned, and the slot is empty; the next \<^verbatim>\<open>get_or_create\<close> of
  \<open>k\<close> then calls \<^verbatim>\<open>Dispatch\<close> and returns what it returns.
\<close>

theorem registry_slot_lifecycle:
  "(\<forall>k'. k' \<noteq> k \<longrightarrow>
       office_apps (snd (get_or_create k env s)) k' = office_apps s k' \<and>
       office_apps (snd (office_close k env req s)) k' = office_apps s k') \<and>
   office_apps (snd (office_launch k env s)) = office_apps (snd (get_or_create k env s)) \<and>
   snd (shutdown env s) =
     snd (powerpoint_close env (Returns False)
       (snd (excel_close env (Returns False) (snd (word_close env (Returns False) s))))) \<and>
   (\<not> is_success (fst (office_close k env req s)) \<longrightarrow>
      office_apps (snd (office_close k env req s)) = office_apps s) \<and>
   (\<forall>h r s1. office_apps s k = Some h \<and> office_close k env req s = (r, s1) \<and> is_success r \<longrightarrow>
       Quit env h = Returns () \<and> last (com_log s1) = CallQuit h \<and> office_apps s1 k = None \<and>
       fst (get_or_create k env' s1) = Dispatch env' k \<and>
       com_log (snd (get_or_create k env' s1)) = com_log s1 @ [CallDispatch k] \<and>
       office_apps (snd (get_or_create k env' s1)) k =
         (case Dispatch env' k of Returns h' \<Rightarrow> Some h' | Raises _ \<Rightarrow> None))"
proof (intro conjI allI impI)
  fix h r s1
  assume a: "office_apps s k = Some h \<and> office_close k env req s = (r, s1) \<and> is_success r"
  then show "Quit env h = Returns ()" and "last (com_log s1) = CallQuit h"
    using office_close_success[of s k h env req r s1] by simp_all
  from a show slot: "office_apps s1 k = None"
    using office_close_success_slot[of k env req s r s1] by simp
  from get_or_create_empty[OF slot, of env']
  show "fst (get_or_create k env' s1) = Dispatch env' k"
    and "com_log (snd (get_or_create k env' s1)) = com_log s1 @ [CallDispatch k]"
    and "office_apps (snd (get_or_create k env' s1)) k =
         (case Dispatch env' k of Returns h' \<Rightarrow> Some h' | Raises _ \<Rightarrow> None)"
    by simp_all
qed (simp_all add: get_or_create_frame office_close_frame office_launch_slots
    shutdown_is_release_of_each_kind office_close_slots)

theorem registry_slot_lifecycle_witness:
  "office_apps word_held WordApp = Some 1 \<and>
   is_success (fst (word_close live_com_env (Returns True) word_held)) \<and>
   com_log (snd (word_close live_com_env (Returns True) word_held)) =
     [CallDispatch WordApp, IterDocuments 1, CallSave 10, CallSave 11, CallQuit 1] \<and>
   office_apps (snd (word_close live_com_env (Returns True) word_held)) WordApp = None \<and>
   fst (get_or_create_word live_com_env (snd (word_close live_com_env (Returns True) word_held))) =
     Returns 1 \<and>
   com_log (snd (get_or_create_word live_com_env
                   (snd (word_close live_com_env (Returns True) word_held)))) =
     [CallDispatch WordApp, IterDocuments 1, CallSave 10, CallSave 11, CallQuit 1,
      CallDispatch WordApp]"
proof -
  let ?c = "office_close WordApp live_com_env (Returns True) word_held"
  have held: "office_apps word_held WordApp = Some 1"
    by (simp add: word_held_def)
  have ok: "is_success (fst ?c)"
    by (simp add: office_close_def word_held_def live_com_env_def logged_def set_slot_def
        is_success_no_data)
  have log: "com_log (snd ?c) =
      [CallDispatch WordApp, IterDocuments 1, CallSave 10, CallSave 11, CallQuit 1]"
    by (simp add: office_close_def word_held_def live_com_env_def logged_def set_slot_def)
  have d: "Dispatch live_com_env WordApp = Returns 1"
    by (simp add: live_com_env_def)
  from registry_slot_lifecycle[of WordApp live_com_env word_held "Returns True" live_com_env]
  have "office_apps word_held WordApp = Some 1 \<and> ?c = (fst ?c, snd ?c) \<and> is_success (fst ?c) \<longrightarrow>
        office_apps (snd ?c) WordApp = None \<and>
        fst (get_or_create WordApp live_com_env (snd ?c)) = Dispatch live_com_env WordApp \<and>
        com_log (snd (get_or_create WordApp live_com_env (snd ?c))) = com_log (snd ?c) @ [CallDispatch WordApp]"
    by blast
  with held ok log d show ?thesis
    by (simp add: word_close_def get_or_create_word_def)
qed

text \<open>
  The claim says that a release quits the application and clears the slot, so that the
  next acquire constructs a fresh handle.  When \<^verbatim>\<open>Quit\<close> raises, the close endpoint
  answers with a failure and the slot keeps its handle; the application still answering
  the probe, the next \<^verbatim>\<open>get_or_create_word\<close> returns that handle and calls no
  \<^verbatim>\<open>Dispatch\<close>.
\<close>

theorem failed_release_keeps_handle_counterexample:
  "office_apps word_held WordApp = Some 1 \<and>
   word_close busy_com_env (Returns False) word_held =
     ([(''success'', JBool False), (''error'', JStr ''Failed to close Word''),
       (''details'', JStr ''Call was rejected by callee.'')],
      word_held\<lparr>com_log := [CallDispatch WordApp, CallQuit 1]\<rparr>) \<and>
   office_apps (snd (word_close busy_com_env (Returns False) word_held)) WordApp = Some 1 \<and>
   get_or_create_word busy_com_env (snd (word_close busy_com_env (Returns False) word_held)) =
     (Returns 1, word_held\<lparr>com_log := [CallDispatch WordApp, CallQuit 1, GetVisible 1]\<rparr>)"
  by (simp add: word_close_def office_close_def get_or_create_word_def get_or_create_def
      busy_com_env_def live_com_env_def word_held_def logged_def set_slot_def
      get_error_response_def app_name_def)

lemma office_close_failure_keeps_slots:
  "\<not> is_success (fst (office_close k env req s)) \<Longrightarrow>
   office_apps (snd (office_close k env req s)) = office_apps s"
  by (simp add: office_close_slots)

lemma office_close_quit_raises:
  "office_apps s k = Some h \<Longrightarrow> Quit env h = Raises e \<Longrightarrow>
   \<not> is_success (fst (office_close k env req s))"
  by (auto simp: office_close_def Let_def is_success_error split: outcome.splits prod.splits)




subsection \<open>The window locator\<close>











subsection \<open>Positioning\<close>





subsection \<open>The capture chain\<close>














lemma print_window_direct:
  assumes "window_dc env = Returns ()" and "print_window env = Returns True"
  shows "\<forall>w h. BitBlt w h \<notin>
           set (drop (length cs) (snd (strategy_print_window env hwnd r cs)))"
  using assms
  by (cases r) (auto simp: strategy_print_window_def Let_def encode_png_def split: outcome.splits)





subsection \<open>Bringing a window to the foreground\<close>








text \<open>
  The browser server's \<^verbatim>\<open>bring_window_to_front\<close> does attach the thread input around the
  call, falls back to the plain call when an exception occurs on that path, and returns
  \<^verbatim>\<open>False\<close> instead of raising when the plain call raises too.
\<close>

lemma foreground_with_attach_escalates:
  assumes "thread_ids env = Returns (foreground_thread, target_thread)"
      and "foreground_thread \<noteq> target_thread"
      and "attach env = Returns ()" and "foreground_attached env = Returns ()"
      and "detach env = Returns ()"
  shows "foreground_with_attach env hwnd cs =
           (Returns (),
            cs @ [GetWindowThreads hwnd, AttachThreadInput foreground_thread target_thread True,
                  SetForegroundWindow hwnd,
                  AttachThreadInput foreground_thread target_thread False])"
  using assms by (simp add: foreground_with_attach_def)

lemma foreground_with_attach_falls_back:
  assumes "thread_ids env = Raises e \<or>
           (\<exists>f t. thread_ids env = Returns (f, t) \<and> f \<noteq> t \<and> attach env = Raises e)"
  shows "fst (foreground_with_attach env hwnd cs) = foreground_fallback env \<and>
         last (snd (foreground_with_attach env hwnd cs)) = SetForegroundWindow hwnd"
  using assms by (auto simp: foreground_with_attach_def)

lemma bring_window_to_front_attaches_thread_input:
  "bring_window_to_front chrome_front_env ''Chrome'' =
     (True, [CallEnumWindows, IsIconic 555, ShowWindow 555 5, BringWindowToTop 555,
             GetWindowThreads 555, AttachThreadInput 11 22 True, SetForegroundWindow 555,
             AttachThreadInput 11 22 False]) \<and>
   bring_window_to_front (chrome_front_env\<lparr>attach := Raises ''Access is denied.''\<rparr>) ''Chrome'' =
     (True, [CallEnumWindows, IsIconic 555, ShowWindow 555 5, BringWindowToTop 555,
             GetWindowThreads 555, AttachThreadInput 11 22 True, SetForegroundWindow 555]) \<and>
   bring_window_to_front
       (chrome_front_env\<lparr>thread_ids := Raises ''No module named win32process'',
                          foreground_fallback := Raises ''Access is denied.''\<rparr>) ''Chrome'' =
     (False, [CallEnumWindows, IsIconic 555, ShowWindow 555 5, BringWindowToTop 555,
              GetWindowThreads 555, SetForegroundWindow 555])"
  by code_simp

subsection \<open>The browser's screenshot\<close>

lemma lower_false: "lower ''false'' \<noteq> ''true''"
  by code_simp

lemma plain_screenshot_keeps_window_size:
  "window_size (snd (browser_screenshot env None s)) = window_size s"
  by (auto simp: browser_screenshot_def Let_def wd_logged_def lower_false
      split: option.splits outcome.splits)

lemma full_page_screenshot_taken_only_after_resize:
  assumes "browser s = Some b" and "lower a = ''true''"
      and "GetScreenshot b \<in> set (drop (length (wd_log s)) (wd_log (snd (browser_screenshot env (Some a) s))))"
  shows "\<exists>total_height total_width.
           scroll_height env = Returns total_height \<and> scroll_width env = Returns total_width \<and>
           set_window_size env = Returns ()"
  using assms
  by (auto simp: browser_screenshot_def Let_def wd_logged_def split: outcome.splits)

text \<open>
  Claim C9.  \<^verbatim>\<open>browser_screenshot\<close> with \<^verbatim>\<open>full_page\<close> true (any spelling of
  \<^verbatim>\<open>true\<close>), a browser held, and the two script reads and \<^verbatim>\<open>set_window_size\<close>
  returning: the window is resized to the larger of the page's scroll width and 1920 by the
  larger of its scroll height and 1080; the resize comes before the screenshot in the log
  and no second resize follows it, whatever the screenshot and the reads after it answer;
  the state the endpoint leaves holds the same browser with the new window size, and a
  screenshot taken next without \<^verbatim>\<open>full_page\<close> still finds that size.
\<close>

theorem full_page_screenshot_leaves_window_resized:
  assumes "browser s = Some b" and "lower a = ''true''"
      and "scroll_height env = Returns total_height"
      and "scroll_width env = Returns total_width"
      and "set_window_size env = Returns ()"
  shows "window_size (snd (browser_screenshot env (Some a) s)) b =
           Some (max total_width 1920, max total_height 1080) \<and>
         (\<exists>rest. wd_log (snd (browser_screenshot env (Some a) s)) =
            wd_log s @
            [ExecuteScript b ''return document.body.scrollHeight'',
             ExecuteScript b ''return document.body.scrollWidth'',
             SetWindowSize b (max total_width 1920) (max total_height 1080),
             SleepSeconds, GetScreenshot b] @ rest \<and>
            filter is_SetWindowSize rest = []) \<and>
         browser (snd (browser_screenshot env (Some a) s)) = Some b \<and>
         (\<forall>env'. window_size (snd (browser_screenshot env' None
                                   (snd (browser_screenshot env (Some a) s)))) b =
                 Some (max total_width 1920, max total_height 1080))"
proof -
  let ?s' = "snd (browser_screenshot env (Some a) s)"
  have size: "window_size ?s' b = Some (max total_width 1920, max total_height 1080)"
    using assms
    by (auto simp: browser_screenshot_def Let_def wd_logged_def split: outcome.splits)
  have log: "\<exists>rest. wd_log ?s' =
            wd_log s @
            [ExecuteScript b ''return document.body.scrollHeight'',
             ExecuteScript b ''return document.body.scrollWidth'',
             SetWindowSize b (max total_width 1920) (max total_height 1080),
             SleepSeconds, GetScreenshot b] @ rest \<and>
            filter is_SetWindowSize rest = []"
    using assms
    by (auto simp: browser_screenshot_def Let_def wd_logged_def is_SetWindowSize_def
        split: outcome.splits)
  have held: "browser ?s' = Some b"
    using assms
    by (auto simp: browser_screenshot_def Let_def wd_logged_def split: outcome.splits)
  have "\<And>env'. window_size (snd (browser_screenshot env' None ?s')) = window_size ?s'"
    by (rule plain_screenshot_keeps_window_size)
  with size log held show ?thesis by simp
qed


theorem full_page_screenshot_witness:
  "browser chrome_running = Some 1 \<and> lower ''True'' = ''true'' \<and>
   scroll_height long_page_env = Returns 5400 \<and> scroll_width long_page_env = Returns 1280 \<and>
   set_window_size long_page_env = Returns () \<and>
   window_size chrome_running 1 = None \<and>
   window_size (snd (browser_screenshot long_page_env (Some ''True'') chrome_running)) 1 =
     Some (1920, 5400) \<and>
   wd_log (snd (browser_screenshot long_page_env (Some ''True'') chrome_running)) =
     [NewChrome True,
      ExecuteScript 1 ''return document.body.scrollHeight'',
      ExecuteScript 1 ''return document.body.scrollWidth'',
      SetWindowSize 1 1920 5400, SleepSeconds, GetScreenshot 1, GetCurrentUrl 1, GetTitle 1] \<and>
   window_size (snd (browser_screenshot long_page_env None
                      (snd (browser_screenshot long_page_env (Some ''True'') chrome_running)))) 1 =
     Some (1920, 5400)"
proof -
  have b: "browser chrome_running = Some 1"
    by (simp add: chrome_running_def)
  have l: "lower ''True'' = ''true''"
    by code_simp
  have h: "scroll_height long_page_env = Returns 5400"
    and w: "scroll_width long_page_env = Returns 1280"
    and z: "set_window_size long_page_env = Returns ()"
    by (simp_all add: long_page_env_def chrome_wd_env_def)
  have n: "window_size chrome_running 1 = None"
    by (simp add: chrome_running_def initial_browser_server_def)
  have g: "wd_log (snd (browser_screenshot long_page_env (Some ''True'') chrome_running)) =
     [NewChrome True,
      ExecuteScript 1 ''return document.body.scrollHeight'',
      ExecuteScript 1 ''return document.body.scrollWidth'',
      SetWindowSize 1 1920 5400, SleepSeconds, GetScreenshot 1, GetCurrentUrl 1, GetTitle 1]"
    by code_simp
  note t = full_page_screenshot_leaves_window_resized[OF b l h w z]
  from t have s1: "window_size (snd (browser_screenshot long_page_env (Some ''True'') chrome_running)) 1 =
     Some (1920, 5400)"
    by simp
  from t have s2: "window_size (snd (browser_screenshot long_page_env None
                      (snd (browser_screenshot long_page_env (Some ''True'') chrome_running)))) 1 =
     Some (1920, 5400)"
    by simp
  show ?thesis
    by (intro conjI) (rule b l h w z n g s1 s2)+
qed

end
